theory Spec2Isabelle
  imports Main
begin

section \<open>The lifecycle coordinator of jest-environment-puppeteer (env.ts)\<close>

text \<open>
  The module \<^verbatim>\<open>packages/jest-environment-puppeteer/src/env.ts\<close> keeps three optional
  references (browser, context, page) and the configuration on the test environment's
  global object, and sequences calls to the browser-automation client. The functions are
  asynchronous in the source; each awaits one client call at a time, so they are modelled
  as sequential state transformers. A \<^verbatim>\<open>throw\<close> is the result \<open>Inl\<close>; since the
  global object is mutated in place, the state reached at the moment of the throw is
  returned together with the error.
\<close>

subsection \<open>Handles, configuration and the global object\<close>

text \<open>
  Modelled from the spec: the handle types of the automation client (the section on
  external interfaces lists connect, default-context, incognito-context-create,
  page-open/close, context-close and browser-disconnect; the client itself is not part of
  the module). A handle is identified by the number under which the client issued it. The
  default context of a browser is a fixed object of that browser; an incognito context and
  a page are created on request.
\<close>

datatype browser = Browser nat

datatype bcontext = DefaultContext browser | IncognitoContext browser nat

datatype page = Page nat

text \<open>
  The only listener the module registers is the function \<^verbatim>\<open>handlePageError\<close>;
  \<^verbatim>\<open>page.on\<close> and \<^verbatim>\<open>page.off\<close> identify it by reference.
\<close>

datatype listener = HandlePageError

text \<open>
  The fields of \<^verbatim>\<open>global.puppeteerConfig\<close> that the module reads. \<open>browserContext\<close> is
  \<open>None\<close> when the setting is absent (\<^verbatim>\<open>undefined\<close> or \<^verbatim>\<open>null\<close>, the two values the
  operator \<^verbatim>\<open>??\<close> replaces); the two flags are read for their truthiness only.
\<close>

record puppeteerConfig =
  browserContext :: "string option"
  exitOnPageError :: bool
  runBeforeUnloadOnClose :: bool

text \<open>
  \<^verbatim>\<open>JestPuppeteerGlobal\<close>: the references are \<open>None\<close> when the property is
  \<^verbatim>\<open>undefined\<close>. The property \<^verbatim>\<open>context\<close> is the field \<open>ctxt\<close> here.
\<close>

record jestPuppeteerGlobal =
  browser :: "browser option"
  ctxt :: "bcontext option"
  page :: "page option"
  puppeteerConfig :: puppeteerConfig

subsection \<open>The automation client and the process\<close>

text \<open>
  The effectful calls the module issues to the client, logged in the order of issue.
\<close>

datatype call =
    ConnectBrowserFromWorker puppeteerConfig browser
  | Disconnect browser
  | CreateIncognitoBrowserContext browser bcontext
  | ContextClose bcontext
  | NewPage bcontext page
  | PageOn page listener
  | PageOff page listener
  | PageClose page bool

datatype error = Error string

datatype process_event = UncaughtException error

text \<open>
  Modelled from the spec: the state of the automation client and of the process, neither
  of which is part of the module. It holds the number of the next handle the client
  issues, the log of client calls, the \<^verbatim>\<open>pageerror\<close> listeners registered on pages,
  and the events emitted on the process.
\<close>

record world =
  next_handle :: nat
  calls :: "call list"
  listeners :: "(page \<times> listener) list"
  emitted :: "process_event list"

record state =
  global :: jestPuppeteerGlobal
  client :: world

text \<open>
  The client's operations follow. The spec names them (connect, default-context,
  incognito-context-create, page-open/close, context-close, browser-disconnect) and gives
  them no failure of their own, so each call succeeds; an acquisition returns a handle the
  client has not issued before.
\<close>

text \<open>
  Modelled from the spec: \<^verbatim>\<open>connectBrowserFromWorker\<close> of \<^verbatim>\<open>./browsers\<close>, which is not
  among the sources; it acquires a browser handle.
\<close>

definition connectBrowserFromWorker :: "puppeteerConfig \<Rightarrow> world \<Rightarrow> browser \<times> world" where
  "connectBrowserFromWorker config w =
     (let b = Browser (next_handle w)
      in (b, w\<lparr>next_handle := Suc (next_handle w),
                calls := calls w @ [ConnectBrowserFromWorker config b]\<rparr>))"

text \<open>Modelled from the spec: \<^verbatim>\<open>browser.disconnect()\<close> of the client.\<close>

definition disconnect :: "browser \<Rightarrow> world \<Rightarrow> world" where
  "disconnect b w = w\<lparr>calls := calls w @ [Disconnect b]\<rparr>"

text \<open>
  Modelled from the spec: \<^verbatim>\<open>browser.defaultBrowserContext()\<close> of the client, a
  synchronous getter of the context every browser has.
\<close>

definition defaultBrowserContext :: "browser \<Rightarrow> bcontext" where
  "defaultBrowserContext b = DefaultContext b"

text \<open>
  Modelled from the spec: \<^verbatim>\<open>browser.createIncognitoBrowserContext()\<close> of the client,
  which creates an isolated context.
\<close>

definition createIncognitoBrowserContext :: "browser \<Rightarrow> world \<Rightarrow> bcontext \<times> world" where
  "createIncognitoBrowserContext b w =
     (let c = IncognitoContext b (next_handle w)
      in (c, w\<lparr>next_handle := Suc (next_handle w),
                calls := calls w @ [CreateIncognitoBrowserContext b c]\<rparr>))"

text \<open>
  Modelled from the spec: \<^verbatim>\<open>context.isIncognito()\<close> of the client; the default context
  is the non-isolated one.
\<close>

fun isIncognito :: "bcontext \<Rightarrow> bool" where
  "isIncognito (DefaultContext b) = False"
| "isIncognito (IncognitoContext b n) = True"

text \<open>Modelled from the spec: \<^verbatim>\<open>context.close()\<close> of the client.\<close>

definition context_close :: "bcontext \<Rightarrow> world \<Rightarrow> world" where
  "context_close c w = w\<lparr>calls := calls w @ [ContextClose c]\<rparr>"

text \<open>Modelled from the spec: \<^verbatim>\<open>context.newPage()\<close> of the client.\<close>

definition newPage :: "bcontext \<Rightarrow> world \<Rightarrow> page \<times> world" where
  "newPage c w =
     (let p = Page (next_handle w)
      in (p, w\<lparr>next_handle := Suc (next_handle w), calls := calls w @ [NewPage c p]\<rparr>))"

text \<open>
  Modelled from the spec: \<^verbatim>\<open>page.on("pageerror", l)\<close> and \<^verbatim>\<open>page.off("pageerror", l)\<close> of
  the client; the first registers the listener on the page, the second removes one
  registration of it.
\<close>

definition page_on :: "page \<Rightarrow> listener \<Rightarrow> world \<Rightarrow> world" where
  "page_on p l w = w\<lparr>calls := calls w @ [PageOn p l], listeners := listeners w @ [(p, l)]\<rparr>"

definition page_off :: "page \<Rightarrow> listener \<Rightarrow> world \<Rightarrow> world" where
  "page_off p l w =
     w\<lparr>calls := calls w @ [PageOff p l], listeners := remove1 (p, l) (listeners w)\<rparr>"

text \<open>Modelled from the spec: \<^verbatim>\<open>page.close({ runBeforeUnload })\<close> of the client.\<close>

definition page_close :: "page \<Rightarrow> bool \<Rightarrow> world \<Rightarrow> world" where
  "page_close p runBeforeUnload w = w\<lparr>calls := calls w @ [PageClose p runBeforeUnload]\<rparr>"

subsection \<open>env.ts\<close>

text \<open>\<^verbatim>\<open>handlePageError\<close>: \<^verbatim>\<open>process.emit("uncaughtException", error)\<close>.\<close>

definition handlePageError :: "error \<Rightarrow> world \<Rightarrow> world" where
  "handlePageError err w = w\<lparr>emitted := emitted w @ [UncaughtException err]\<rparr>"

text \<open>
  Modelled from the spec: a page-level runtime error. The client's page emits
  \<^verbatim>\<open>pageerror\<close>, which calls the listeners registered on that page with the error, in
  the order of registration.
\<close>

fun invoke :: "listener \<Rightarrow> error \<Rightarrow> world \<Rightarrow> world" where
  "invoke HandlePageError err w = handlePageError err w"

fun dispatch :: "(page \<times> listener) list \<Rightarrow> page \<Rightarrow> error \<Rightarrow> world \<Rightarrow> world" where
  "dispatch [] p err w = w"
| "dispatch ((q, l) # ls) p err w =
     dispatch ls p err (if q = p then invoke l err w else w)"

definition pageerror :: "page \<Rightarrow> error \<Rightarrow> world \<Rightarrow> world" where
  "pageerror p err w = dispatch (listeners w) p err w"

definition getBrowser :: "jestPuppeteerGlobal \<Rightarrow> error + browser" where
  "getBrowser g =
     (case browser g of
        None \<Rightarrow> Inl (Error ''Cannot access browser before launching browser.'')
      | Some b \<Rightarrow> Inr b)"

definition getContext :: "jestPuppeteerGlobal \<Rightarrow> error + bcontext" where
  "getContext g =
     (case ctxt g of
        None \<Rightarrow> Inl (Error ''Cannot access context before launching context.'')
      | Some c \<Rightarrow> Inr c)"

definition connectBrowser :: "state \<Rightarrow> (error + unit) \<times> state" where
  "connectBrowser s =
     (case browser (global s) of
        Some b \<Rightarrow> (Inl (Error ''Cannot connect browser before closing previous browser.''), s)
      | None \<Rightarrow>
          (case connectBrowserFromWorker (puppeteerConfig (global s)) (client s) of
             (b, w) \<Rightarrow> (Inr (), \<lparr>global = (global s)\<lparr>browser := Some b\<rparr>, client = w\<rparr>)))"

definition disconnectBrowser :: "state \<Rightarrow> (error + unit) \<times> state" where
  "disconnectBrowser s =
     (case browser (global s) of
        None \<Rightarrow> (Inr (), s)
      | Some b \<Rightarrow>
          (Inr (), \<lparr>global = (global s)\<lparr>browser := None\<rparr>, client = disconnect b (client s)\<rparr>))"

definition getPage :: "jestPuppeteerGlobal \<Rightarrow> error + page" where
  "getPage g =
     (case page g of
        None \<Rightarrow> Inl (Error ''Cannot access page before launching browser.'')
      | Some p \<Rightarrow> Inr p)"

definition openPage :: "state \<Rightarrow> (error + unit) \<times> state" where
  "openPage s =
     (case page (global s) of
        Some p \<Rightarrow> (Inl (Error ''Cannot open page before closing previous page.''), s)
      | None \<Rightarrow>
          (case getContext (global s) of
             Inl e \<Rightarrow> (Inl e, s)
           | Inr c \<Rightarrow>
               (case newPage c (client s) of
                  (p, w) \<Rightarrow>
                    (Inr (),
                     \<lparr>global = (global s)\<lparr>page := Some p\<rparr>,
                      client = (if exitOnPageError (puppeteerConfig (global s))
                                then page_on p HandlePageError w else w)\<rparr>))))"

definition closePage :: "state \<Rightarrow> (error + unit) \<times> state" where
  "closePage s =
     (case page (global s) of
        None \<Rightarrow> (Inr (), s)
      | Some p \<Rightarrow>
          (let w = (if exitOnPageError (puppeteerConfig (global s))
                    then page_off p HandlePageError (client s) else client s);
               w' = page_close p (runBeforeUnloadOnClose (puppeteerConfig (global s))) w
           in (Inr (), \<lparr>global = (global s)\<lparr>page := None\<rparr>, client = w'\<rparr>)))"

definition invalid_mode_message :: "string \<Rightarrow> string" where
  "invalid_mode_message configBrowserContext =
     ''browserContext should be either 'incognito' or 'default'. Received ''
       @ [CHR 0x27] @ configBrowserContext @ [CHR 0x27]"

definition createContext :: "state \<Rightarrow> (error + unit) \<times> state" where
  "createContext s =
     (case ctxt (global s) of
        Some c \<Rightarrow> (Inl (Error ''Cannot create context before closing previous context.''), s)
      | None \<Rightarrow>
          (let configBrowserContext =
                 (case browserContext (puppeteerConfig (global s)) of
                    None \<Rightarrow> ''default'' | Some m \<Rightarrow> m)
           in case getBrowser (global s) of
                Inl e \<Rightarrow> (Inl e, s)
              | Inr b \<Rightarrow>
                  if configBrowserContext = ''default'' then
                    (Inr (), s\<lparr>global := (global s)\<lparr>ctxt := Some (defaultBrowserContext b)\<rparr>\<rparr>)
                  else if configBrowserContext = ''incognito'' then
                    (case createIncognitoBrowserContext b (client s) of
                       (c, w) \<Rightarrow>
                         (Inr (), \<lparr>global = (global s)\<lparr>ctxt := Some c\<rparr>, client = w\<rparr>))
                  else (Inl (Error (invalid_mode_message configBrowserContext)), s)))"

definition closeContext :: "state \<Rightarrow> (error + unit) \<times> state" where
  "closeContext s =
     (case ctxt (global s) of
        None \<Rightarrow> (Inr (), s)
      | Some c \<Rightarrow>
          (let w = (if isIncognito c then context_close c (client s) else client s)
           in (Inr (), \<lparr>global = (global s)\<lparr>ctxt := None\<rparr>, client = w\<rparr>)))"

text \<open>
  Sequencing of two awaited calls: the second runs on the state the first left, unless the
  first threw.
\<close>

definition and_then ::
  "(state \<Rightarrow> (error + unit) \<times> state) \<Rightarrow> (state \<Rightarrow> (error + unit) \<times> state)
     \<Rightarrow> state \<Rightarrow> (error + unit) \<times> state" where
  "and_then f g s = (case f s of (Inl e, s') \<Rightarrow> (Inl e, s') | (Inr u, s') \<Rightarrow> g s')"

definition initAll :: "state \<Rightarrow> (error + unit) \<times> state" where
  "initAll = and_then connectBrowser (and_then createContext openPage)"

definition closeAll :: "state \<Rightarrow> (error + unit) \<times> state" where
  "closeAll = and_then closePage (and_then closeContext disconnectBrowser)"

text \<open>\<^verbatim>\<open>global.jestPuppeteer.resetPage\<close> and \<^verbatim>\<open>global.jestPuppeteer.resetBrowser\<close>.\<close>

definition resetPage :: "state \<Rightarrow> (error + unit) \<times> state" where
  "resetPage = and_then closePage openPage"

definition resetBrowser :: "state \<Rightarrow> (error + unit) \<times> state" where
  "resetBrowser = and_then closeAll initAll"

subsection \<open>Sequences of operations\<close>

text \<open>
  The state before \<^verbatim>\<open>setup\<close> has run \<^verbatim>\<open>initAll\<close>: the configuration is stored, no
  reference is held.
\<close>

definition initial :: "puppeteerConfig \<Rightarrow> world \<Rightarrow> state" where
  "initial config w =
     \<lparr>global = \<lparr>browser = None, ctxt = None, page = None, puppeteerConfig = config\<rparr>,
      client = w\<rparr>"

datatype operation =
    ConnectBrowser | CreateContext | OpenPage
  | ClosePage | CloseContext | DisconnectBrowser
  | InitAll | CloseAll | ResetPage | ResetBrowser

fun exec :: "operation \<Rightarrow> state \<Rightarrow> (error + unit) \<times> state" where
  "exec ConnectBrowser = connectBrowser"
| "exec CreateContext = createContext"
| "exec OpenPage = openPage"
| "exec ClosePage = closePage"
| "exec CloseContext = closeContext"
| "exec DisconnectBrowser = disconnectBrowser"
| "exec InitAll = initAll"
| "exec CloseAll = closeAll"
| "exec ResetPage = resetPage"
| "exec ResetBrowser = resetBrowser"

text \<open>
  A sequence of operations on the same global object. An operation that throws leaves the
  global object as it was at the throw, and the next operation of the sequence runs on it.
\<close>

fun run :: "operation list \<Rightarrow> state \<Rightarrow> state" where
  "run [] s = s"
| "run (x # xs) s = run xs (snd (exec x s))"

text \<open>The invariant of the data model: no page without a context, no context without a browser.\<close>

definition lifecycle_ok :: "jestPuppeteerGlobal \<Rightarrow> bool" where
  "lifecycle_ok g \<longleftrightarrow>
     (page g \<noteq> None \<longrightarrow> ctxt g \<noteq> None) \<and> (ctxt g \<noteq> None \<longrightarrow> browser g \<noteq> None)"

text \<open>The values of \<open>browserContext\<close> for which the switch of \<^verbatim>\<open>createContext\<close> has a case.\<close>

definition valid_mode :: "puppeteerConfig \<Rightarrow> bool" where
  "valid_mode config \<longleftrightarrow>
     browserContext config = None \<or> browserContext config = Some ''default''
     \<or> browserContext config = Some ''incognito''"

text \<open>
  Teardown order: \<^verbatim>\<open>closeContext\<close> on its own is in order when no page is held,
  \<^verbatim>\<open>disconnectBrowser\<close> on its own when no context is held, as in \<^verbatim>\<open>closeAll\<close>. A
  sequence is ordered when each of its operations is in order in the state it runs on.
\<close>

fun in_order :: "operation \<Rightarrow> jestPuppeteerGlobal \<Rightarrow> bool" where
  "in_order CloseContext g = (page g = None)"
| "in_order DisconnectBrowser g = (ctxt g = None)"
| "in_order x g = True"

fun ordered :: "operation list \<Rightarrow> state \<Rightarrow> bool" where
  "ordered [] s = True"
| "ordered (x # xs) s = (in_order x (global s) \<and> ordered xs (snd (exec x s)))"

text \<open>
  The number under which the client issued a handle; the default context of a browser
  comes with the browser. A state holds issued handles when each held handle has a number
  below the next one the client will issue.
\<close>

fun browser_no :: "browser \<Rightarrow> nat" where
  "browser_no (Browser n) = n"

fun context_no :: "bcontext \<Rightarrow> nat" where
  "context_no (DefaultContext b) = browser_no b"
| "context_no (IncognitoContext b n) = n"

fun page_no :: "page \<Rightarrow> nat" where
  "page_no (Page n) = n"

definition issued :: "state \<Rightarrow> bool" where
  "issued s \<longleftrightarrow>
     (case browser (global s) of None \<Rightarrow> True | Some b \<Rightarrow> browser_no b < next_handle (client s))
     \<and> (case ctxt (global s) of None \<Rightarrow> True | Some c \<Rightarrow> context_no c < next_handle (client s))
     \<and> (case page (global s) of None \<Rightarrow> True | Some p \<Rightarrow> page_no p < next_handle (client s))"

text \<open>A context is held only under a mode that \<^verbatim>\<open>createContext\<close> accepts.\<close>

definition mode_accepted :: "state \<Rightarrow> bool" where
  "mode_accepted s \<longleftrightarrow>
     (case ctxt (global s) of None \<Rightarrow> True | Some c \<Rightarrow> valid_mode (puppeteerConfig (global s)))"

subsection \<open>Example inputs\<close>

text \<open>
  A configuration with every setting absent, a client that has issued no handle yet, and
  the state after \<^verbatim>\<open>connectBrowser\<close> under a given context mode.
\<close>

definition config0 :: puppeteerConfig where
  "config0 = \<lparr>browserContext = None, exitOnPageError = False, runBeforeUnloadOnClose = False\<rparr>"

definition world0 :: world where
  "world0 = \<lparr>next_handle = 0, calls = [], listeners = [], emitted = []\<rparr>"

definition connected :: "string option \<Rightarrow> state" where
  "connected mode = snd (connectBrowser (initial (config0\<lparr>browserContext := mode\<rparr>) world0))"

text \<open>The state after \<^verbatim>\<open>connectBrowser\<close> and \<^verbatim>\<open>createContext\<close>, with \<open>exitOnPageError\<close> as given.\<close>

definition with_context :: "bool \<Rightarrow> state" where
  "with_context exit =
     snd (createContext (snd (connectBrowser
       (initial (config0\<lparr>exitOnPageError := exit\<rparr>) world0))))"

subsection \<open>Unfolding the operations\<close>

lemmas client_defs = connectBrowserFromWorker_def disconnect_def defaultBrowserContext_def
  createIncognitoBrowserContext_def context_close_def newPage_def page_on_def page_off_def
  page_close_def Let_def

lemmas op_defs = connectBrowser_def disconnectBrowser_def openPage_def closePage_def
  createContext_def closeContext_def getBrowser_def getContext_def getPage_def

lemmas seq_defs = initAll_def closeAll_def resetPage_def resetBrowser_def and_then_def

lemmas example_defs = initial_def config0_def world0_def

lemma and_then_preserves:
  assumes "\<And>t. P t \<Longrightarrow> P (snd (f t))" and "\<And>t. P t \<Longrightarrow> P (snd (g t))" and "P s"
  shows "P (snd (and_then f g s))"
proof (cases "f s")
  case (Pair r t)
  then have "P t" using assms(1) [OF assms(3)] by simp
  then show ?thesis
    using Pair assms(2) [of t] by (cases r) (simp_all add: and_then_def)
qed

lemma connected_eq:
  "connected m =
     \<lparr>global = \<lparr>browser = Some (Browser 0), ctxt = None, page = None,
                 puppeteerConfig = config0\<lparr>browserContext := m\<rparr>\<rparr>,
      client = \<lparr>next_handle = 1,
                 calls = [ConnectBrowserFromWorker (config0\<lparr>browserContext := m\<rparr>) (Browser 0)],
                 listeners = [], emitted = []\<rparr>\<rparr>"
  by (simp add: connected_def connectBrowser_def client_defs example_defs)

lemma established_config0:
  "browser (global (snd (initAll (initial config0 world0)))) = Some (Browser 0)"
  "ctxt (global (snd (initAll (initial config0 world0)))) = Some (DefaultContext (Browser 0))"
  "page (global (snd (initAll (initial config0 world0)))) = Some (Page 1)"
  by (simp_all add: seq_defs op_defs client_defs example_defs)

lemma closeAll_clears:
  "fst (closeAll s) = Inr ()"
  "global (snd (closeAll s)) = (global s)\<lparr>browser := None, ctxt := None, page := None\<rparr>"
  by (auto simp: seq_defs op_defs client_defs split: option.splits)

lemma initAll_from_empty:
  assumes "browser (global s) = None" "ctxt (global s) = None" "page (global s) = None"
    and "valid_mode (puppeteerConfig (global s))"
  shows "fst (initAll s) = Inr ()"
    and "browser (global (snd (initAll s))) = Some (Browser (next_handle (client s)))"
    and "ctxt (global (snd (initAll s))) =
           Some (if browserContext (puppeteerConfig (global s)) = Some ''incognito''
                 then IncognitoContext (Browser (next_handle (client s)))
                        (Suc (next_handle (client s)))
                 else DefaultContext (Browser (next_handle (client s))))"
    and "page (global (snd (initAll s))) =
           Some (Page (if browserContext (puppeteerConfig (global s)) = Some ''incognito''
                       then Suc (Suc (next_handle (client s)))
                       else Suc (next_handle (client s))))"
    and "puppeteerConfig (global (snd (initAll s))) = puppeteerConfig (global s)"
  using assms
  by (auto simp: valid_mode_def seq_defs op_defs client_defs)

subsection \<open>Accessors\<close>

text \<open>
  C5: when the reference is not held, \<^verbatim>\<open>getBrowser\<close>, \<^verbatim>\<open>getContext\<close> and
  \<^verbatim>\<open>getPage\<close> each fail with their message instead of returning a value.
\<close>

theorem access_before_acquire_fails:
  "(browser g = None \<longrightarrow>
      getBrowser g = Inl (Error ''Cannot access browser before launching browser.''))
   \<and> (ctxt g = None \<longrightarrow>
      getContext g = Inl (Error ''Cannot access context before launching context.''))
   \<and> (page g = None \<longrightarrow>
      getPage g = Inl (Error ''Cannot access page before launching browser.''))"
  by (simp add: getBrowser_def getContext_def getPage_def)

theorem access_before_acquire_fails_witness:
  "getBrowser (global (initial config0 world0))
     = Inl (Error ''Cannot access browser before launching browser.'')
   \<and> getContext (global (initial config0 world0))
     = Inl (Error ''Cannot access context before launching context.'')
   \<and> getPage (global (initial config0 world0))
     = Inl (Error ''Cannot access page before launching browser.'')"
  using access_before_acquire_fails [of "global (initial config0 world0)"]
  by (simp add: initial_def)

subsection \<open>Acquisition\<close>

text \<open>
  C2: when the browser, the context or the page reference is already held,
  \<^verbatim>\<open>connectBrowser\<close>, \<^verbatim>\<open>createContext\<close> and \<^verbatim>\<open>openPage\<close> respectively throw their
  "before closing previous" error at once: the state, the client's included, is the one
  before the call, so no second handle is acquired.
\<close>

theorem acquire_twice_fails:
  "(browser (global s) \<noteq> None \<longrightarrow>
      connectBrowser s =
        (Inl (Error ''Cannot connect browser before closing previous browser.''), s))
   \<and> (ctxt (global s) \<noteq> None \<longrightarrow>
      createContext s =
        (Inl (Error ''Cannot create context before closing previous context.''), s))
   \<and> (page (global s) \<noteq> None \<longrightarrow>
      openPage s = (Inl (Error ''Cannot open page before closing previous page.''), s))"
  by (auto simp: connectBrowser_def createContext_def openPage_def)

theorem acquire_twice_fails_witness:
  "connectBrowser (snd (initAll (initial config0 world0)))
     = (Inl (Error ''Cannot connect browser before closing previous browser.''),
        snd (initAll (initial config0 world0)))
   \<and> createContext (snd (initAll (initial config0 world0)))
     = (Inl (Error ''Cannot create context before closing previous context.''),
        snd (initAll (initial config0 world0)))
   \<and> openPage (snd (initAll (initial config0 world0)))
     = (Inl (Error ''Cannot open page before closing previous page.''),
        snd (initAll (initial config0 world0)))"
  using acquire_twice_fails [of "snd (initAll (initial config0 world0))"]
  by (simp add: established_config0)

text \<open>
  C3: with a browser held and no context held, \<^verbatim>\<open>createContext\<close> stores the browser's
  default context when the configured mode is absent or \<^verbatim>\<open>default\<close>, stores a context
  newly created by \<^verbatim>\<open>createIncognitoBrowserContext\<close> when the mode is \<^verbatim>\<open>incognito\<close>, and
  for any other mode throws the error whose message ends with the received value between
  quotes, leaving the state as it was.
\<close>

theorem createContext_by_mode:
  assumes "ctxt (global s) = None" and "browser (global s) = Some b"
  shows "(browserContext (puppeteerConfig (global s)) = None
          \<or> browserContext (puppeteerConfig (global s)) = Some ''default'' \<longrightarrow>
            createContext s =
              (Inr (), s\<lparr>global := (global s)\<lparr>ctxt := Some (DefaultContext b)\<rparr>\<rparr>))
     \<and> (browserContext (puppeteerConfig (global s)) = Some ''incognito'' \<longrightarrow>
            createContext s =
              (Inr (),
               \<lparr>global = (global s)
                  \<lparr>ctxt := Some (IncognitoContext b (next_handle (client s)))\<rparr>,
                client = (client s)\<lparr>next_handle := Suc (next_handle (client s)),
                  calls := calls (client s) @
                    [CreateIncognitoBrowserContext b
                       (IncognitoContext b (next_handle (client s)))]\<rparr>\<rparr>))
     \<and> (\<forall>m. browserContext (puppeteerConfig (global s)) = Some m
            \<and> m \<noteq> ''default'' \<and> m \<noteq> ''incognito'' \<longrightarrow>
            createContext s =
              (Inl (Error
                 (''browserContext should be either 'incognito' or 'default'. Received ''
                    @ [CHR 0x27] @ m @ [CHR 0x27])), s))"
  using assms
  by (auto simp: createContext_def getBrowser_def defaultBrowserContext_def
      createIncognitoBrowserContext_def invalid_mode_message_def Let_def)

theorem createContext_by_mode_witness:
  "fst (createContext (connected None)) = Inr ()
   \<and> ctxt (global (snd (createContext (connected None)))) = Some (DefaultContext (Browser 0))
   \<and> fst (createContext (connected (Some ''default''))) = Inr ()
   \<and> ctxt (global (snd (createContext (connected (Some ''default'')))))
       = Some (DefaultContext (Browser 0))
   \<and> fst (createContext (connected (Some ''incognito''))) = Inr ()
   \<and> ctxt (global (snd (createContext (connected (Some ''incognito'')))))
       = Some (IncognitoContext (Browser 0) 1)
   \<and> createContext (connected (Some ''chrome''))
       = (Inl (Error
            (''browserContext should be either 'incognito' or 'default'. Received 'chrome''
               @ [CHR 0x27])),
          connected (Some ''chrome''))"
proof -
  have h: "ctxt (global (connected m)) = None" "browser (global (connected m)) = Some (Browser 0)"
    for m
    by (simp_all add: connected_eq)
  show ?thesis
    using createContext_by_mode [OF h, of None] createContext_by_mode [OF h, of "Some ''default''"]
      createContext_by_mode [OF h, of "Some ''incognito''"]
      createContext_by_mode [OF h, of "Some ''chrome''"]
    by (simp add: connected_eq)
qed

text \<open>
  C10: \<^verbatim>\<open>connectBrowser\<close>, \<^verbatim>\<open>createContext\<close> and \<^verbatim>\<open>openPage\<close> throw exactly when a
  precondition is violated (the reference already held, the prerequisite reference
  missing, or a context mode other than \<^verbatim>\<open>default\<close> and \<^verbatim>\<open>incognito\<close>), and whenever
  one of them throws, the state is the one before the call: the three references are
  untouched and no client call has been issued.
\<close>

theorem acquisition_error_is_atomic:
  "(fst (connectBrowser s) \<noteq> Inr () \<longleftrightarrow> browser (global s) \<noteq> None)
   \<and> (fst (connectBrowser s) \<noteq> Inr () \<longrightarrow> snd (connectBrowser s) = s)
   \<and> (fst (createContext s) \<noteq> Inr () \<longleftrightarrow>
        ctxt (global s) \<noteq> None \<or> browser (global s) = None
        \<or> (\<exists>m. browserContext (puppeteerConfig (global s)) = Some m
               \<and> m \<noteq> ''default'' \<and> m \<noteq> ''incognito''))
   \<and> (fst (createContext s) \<noteq> Inr () \<longrightarrow> snd (createContext s) = s)
   \<and> (fst (openPage s) \<noteq> Inr () \<longleftrightarrow> page (global s) \<noteq> None \<or> ctxt (global s) = None)
   \<and> (fst (openPage s) \<noteq> Inr () \<longrightarrow> snd (openPage s) = s)"
  by (auto simp: op_defs client_defs split: option.splits prod.splits)

theorem acquisition_error_is_atomic_witness:
  "snd (connectBrowser (snd (initAll (initial config0 world0))))
     = snd (initAll (initial config0 world0))
   \<and> snd (createContext (snd (initAll (initial config0 world0))))
     = snd (initAll (initial config0 world0))
   \<and> snd (openPage (snd (initAll (initial config0 world0))))
     = snd (initAll (initial config0 world0))
   \<and> snd (createContext (connected (Some ''chrome''))) = connected (Some ''chrome'')
   \<and> snd (createContext (initial config0 world0)) = initial config0 world0
   \<and> snd (openPage (initial config0 world0)) = initial config0 world0"
proof -
  have chrome:
    "browserContext (puppeteerConfig (global (connected (Some ''chrome'')))) = Some ''chrome''"
    by (simp add: connected_eq)
  have empty: "browser (global (initial config0 world0)) = None"
    "ctxt (global (initial config0 world0)) = None"
    by (simp_all add: initial_def)
  show ?thesis
    using acquisition_error_is_atomic [of "snd (initAll (initial config0 world0))"]
      acquisition_error_is_atomic [of "connected (Some ''chrome'')"] chrome
      acquisition_error_is_atomic [of "initial config0 world0"] empty
    by (simp add: established_config0)
qed

subsection \<open>Release\<close>

text \<open>
  C4: when the page, the context or the browser reference is not held, \<^verbatim>\<open>closePage\<close>,
  \<^verbatim>\<open>closeContext\<close> and \<^verbatim>\<open>disconnectBrowser\<close> respectively return without an error
  and leave the whole state as it was.
\<close>

theorem release_unheld_is_noop:
  "(page (global s) = None \<longrightarrow> closePage s = (Inr (), s))
   \<and> (ctxt (global s) = None \<longrightarrow> closeContext s = (Inr (), s))
   \<and> (browser (global s) = None \<longrightarrow> disconnectBrowser s = (Inr (), s))"
  by (simp add: closePage_def closeContext_def disconnectBrowser_def)

theorem release_unheld_is_noop_witness:
  "closePage (initial config0 world0) = (Inr (), initial config0 world0)
   \<and> closeContext (initial config0 world0) = (Inr (), initial config0 world0)
   \<and> disconnectBrowser (initial config0 world0) = (Inr (), initial config0 world0)"
  using release_unheld_is_noop [of "initial config0 world0"]
  by (simp add: initial_def)

text \<open>
  C7: with a context held, \<^verbatim>\<open>closeContext\<close> returns without an error and clears the
  context reference (the browser and page references stay); the calls it issues to the
  client are the single call \<^verbatim>\<open>context.close()\<close> when the held context is incognito, and
  none when it is the default context.
\<close>

theorem closeContext_closes_incognito_only:
  assumes "ctxt (global s) = Some c"
  shows "fst (closeContext s) = Inr ()
     \<and> ctxt (global (snd (closeContext s))) = None
     \<and> browser (global (snd (closeContext s))) = browser (global s)
     \<and> page (global (snd (closeContext s))) = page (global s)
     \<and> calls (client (snd (closeContext s)))
         = calls (client s) @ (if isIncognito c then [ContextClose c] else [])
     \<and> (ContextClose c
           \<in> set (drop (length (calls (client s))) (calls (client (snd (closeContext s)))))
          \<longleftrightarrow> isIncognito c)"
  using assms by (simp add: closeContext_def context_close_def)

theorem closeContext_closes_incognito_only_witness:
  "calls (client (snd (closeContext (snd (createContext (connected (Some ''incognito'')))))))
     = calls (client (snd (createContext (connected (Some ''incognito'')))))
         @ [ContextClose (IncognitoContext (Browser 0) 1)]
   \<and> ctxt (global (snd (closeContext (snd (createContext (connected (Some ''incognito'')))))))
     = None
   \<and> calls (client (snd (closeContext (snd (createContext (connected None))))))
     = calls (client (snd (createContext (connected None))))
   \<and> ctxt (global (snd (closeContext (snd (createContext (connected None)))))) = None"
proof -
  have i: "ctxt (global (snd (createContext (connected (Some ''incognito'')))))
             = Some (IncognitoContext (Browser 0) 1)"
    by (simp add: connected_eq op_defs client_defs)
  have d: "ctxt (global (snd (createContext (connected None)))) = Some (DefaultContext (Browser 0))"
    by (simp add: connected_eq op_defs client_defs config0_def)
  show ?thesis
    using closeContext_closes_incognito_only [OF i] closeContext_closes_incognito_only [OF d]
    by simp
qed

subsection \<open>Setup and teardown\<close>

text \<open>
  C6: from the initial state, under every configuration and whatever the client has done
  before, \<^verbatim>\<open>initAll\<close> followed by \<^verbatim>\<open>closeAll\<close> ends without an error in a global object
  equal to the initial one: browser, context and page references cleared, configuration
  as stored. When the configured mode is one that \<^verbatim>\<open>createContext\<close> accepts, \<^verbatim>\<open>initAll\<close>
  has succeeded in between and all three references were held.
\<close>

theorem setup_then_teardown_restores_initial:
  "fst (closeAll (snd (initAll (initial config w)))) = Inr ()
   \<and> global (snd (closeAll (snd (initAll (initial config w))))) = global (initial config w)
   \<and> browser (global (snd (closeAll (snd (initAll (initial config w)))))) = None
   \<and> ctxt (global (snd (closeAll (snd (initAll (initial config w)))))) = None
   \<and> page (global (snd (closeAll (snd (initAll (initial config w)))))) = None
   \<and> (valid_mode config \<longrightarrow>
        fst (initAll (initial config w)) = Inr ()
        \<and> browser (global (snd (initAll (initial config w)))) \<noteq> None
        \<and> ctxt (global (snd (initAll (initial config w)))) \<noteq> None
        \<and> page (global (snd (initAll (initial config w)))) \<noteq> None)"
proof -
  have cfg: "puppeteerConfig (global (snd (initAll (initial config w)))) = config"
    by (auto simp: seq_defs op_defs client_defs initial_def split: option.splits)
  have "global (snd (closeAll (snd (initAll (initial config w))))) = global (initial config w)"
    using cfg by (simp add: closeAll_clears initial_def)
  moreover have "valid_mode config \<longrightarrow>
        fst (initAll (initial config w)) = Inr ()
        \<and> browser (global (snd (initAll (initial config w)))) \<noteq> None
        \<and> ctxt (global (snd (initAll (initial config w)))) \<noteq> None
        \<and> page (global (snd (initAll (initial config w)))) \<noteq> None"
    using initAll_from_empty [of "initial config w"] by (simp add: initial_def)
  ultimately show ?thesis by (simp add: closeAll_clears initial_def)
qed

theorem setup_then_teardown_restores_initial_witness:
  "valid_mode config0
   \<and> fst (initAll (initial config0 world0)) = Inr ()
   \<and> page (global (snd (initAll (initial config0 world0)))) = Some (Page 1)
   \<and> fst (closeAll (snd (initAll (initial config0 world0)))) = Inr ()
   \<and> global (snd (closeAll (snd (initAll (initial config0 world0)))))
       = global (initial config0 world0)"
proof -
  have v: "valid_mode config0" by (simp add: valid_mode_def config0_def)
  show ?thesis
    using setup_then_teardown_restores_initial [of config0 world0] v
    by (simp add: established_config0)
qed


subsection \<open>The page-error listener\<close>

lemma dispatch_emitted:
  "emitted (dispatch ls p err w)
     = emitted w @ replicate (length (filter (\<lambda>x. fst x = p) ls)) (UncaughtException err)"
proof (induction ls arbitrary: w)
  case Nil
  then show ?case by simp
next
  case (Cons a ls)
  obtain q l where a: "a = (q, l)" by (cases a)
  show ?case
    by (cases l) (simp add: a Cons.IH handlePageError_def replicate_append_same)
qed

lemma dispatch_no_listener:
  "p \<notin> fst ` set ls \<Longrightarrow> filter (\<lambda>x. fst x = p) ls = []"
  by (induction ls) auto

lemma with_context_eq:
  "with_context x =
     \<lparr>global = \<lparr>browser = Some (Browser 0), ctxt = Some (DefaultContext (Browser 0)),
                 page = None, puppeteerConfig = config0\<lparr>exitOnPageError := x\<rparr>\<rparr>,
      client = \<lparr>next_handle = 1,
                 calls = [ConnectBrowserFromWorker (config0\<lparr>exitOnPageError := x\<rparr>) (Browser 0)],
                 listeners = [], emitted = []\<rparr>\<rparr>"
  by (simp add: with_context_def op_defs client_defs example_defs)

lemma opened_page:
  "page (global (snd (openPage (with_context x)))) = Some (Page 1)"
  "exitOnPageError (puppeteerConfig (global (snd (openPage (with_context x))))) = x"
  "runBeforeUnloadOnClose (puppeteerConfig (global (snd (openPage (with_context x))))) = False"
  by (simp_all add: with_context_eq op_defs client_defs config0_def)

text \<open>
  C8: \<^verbatim>\<open>openPage\<close>, run with a context held and no page held, opens a page and
  registers \<^verbatim>\<open>handlePageError\<close> on it exactly when \<^verbatim>\<open>exitOnPageError\<close> is set; a
  page-level error on the new page then emits that error on the process as
  \<^verbatim>\<open>uncaughtException\<close> when the setting is on and emits nothing when it is off (the
  new page having no listener of its own beforehand). \<^verbatim>\<open>closePage\<close>, run with a page
  held, issues \<^verbatim>\<open>page.off\<close> for the same listener exactly when the setting is on, and
  does so before \<^verbatim>\<open>page.close\<close>; after \<^verbatim>\<open>openPage\<close> and \<^verbatim>\<open>closePage\<close> the
  registered listeners are the ones before.
\<close>

theorem page_error_listener:
  "(page (global s) = None \<and> ctxt (global s) = Some c \<longrightarrow>
      fst (openPage s) = Inr ()
      \<and> page (global (snd (openPage s))) = Some (Page (next_handle (client s)))
      \<and> calls (client (snd (openPage s)))
          = calls (client s) @ NewPage c (Page (next_handle (client s)))
              # (if exitOnPageError (puppeteerConfig (global s))
                 then [PageOn (Page (next_handle (client s))) HandlePageError] else [])
      \<and> listeners (client (snd (openPage s)))
          = listeners (client s)
              @ (if exitOnPageError (puppeteerConfig (global s))
                 then [(Page (next_handle (client s)), HandlePageError)] else []))
   \<and> (page (global s) = None \<and> ctxt (global s) = Some c
        \<and> Page (next_handle (client s)) \<notin> fst ` set (listeners (client s)) \<longrightarrow>
      emitted (pageerror (Page (next_handle (client s))) err (client (snd (openPage s))))
        = emitted (client s)
            @ (if exitOnPageError (puppeteerConfig (global s))
               then [UncaughtException err] else [])
      \<and> listeners (client (snd (closePage (snd (openPage s))))) = listeners (client s))
   \<and> (page (global s) = Some p \<longrightarrow>
      fst (closePage s) = Inr ()
      \<and> page (global (snd (closePage s))) = None
      \<and> calls (client (snd (closePage s)))
          = calls (client s)
              @ (if exitOnPageError (puppeteerConfig (global s))
                 then [PageOff p HandlePageError] else [])
              @ [PageClose p (runBeforeUnloadOnClose (puppeteerConfig (global s)))]
      \<and> listeners (client (snd (closePage s)))
          = (if exitOnPageError (puppeteerConfig (global s))
             then remove1 (p, HandlePageError) (listeners (client s))
             else listeners (client s)))"
proof (intro conjI impI)
  assume h: "page (global s) = None \<and> ctxt (global s) = Some c
        \<and> Page (next_handle (client s)) \<notin> fst ` set (listeners (client s))"
  then have n: "(Page (next_handle (client s)), HandlePageError) \<notin> set (listeners (client s))"
    by force
  show "emitted (pageerror (Page (next_handle (client s))) err (client (snd (openPage s))))
        = emitted (client s)
            @ (if exitOnPageError (puppeteerConfig (global s))
               then [UncaughtException err] else [])"
    using h by (simp add: pageerror_def dispatch_emitted dispatch_no_listener op_defs client_defs)
  show "listeners (client (snd (closePage (snd (openPage s))))) = listeners (client s)"
    using h n by (simp add: op_defs client_defs remove1_append remove1_idem)
qed (simp_all add: op_defs client_defs)

theorem page_error_listener_witness:
  "listeners (client (snd (openPage (with_context True)))) = [(Page 1, HandlePageError)]
   \<and> emitted (pageerror (Page 1) (Error ''boom'') (client (snd (openPage (with_context True)))))
       = [UncaughtException (Error ''boom'')]
   \<and> drop 2 (calls (client (snd (closePage (snd (openPage (with_context True)))))))
       = [PageOn (Page 1) HandlePageError, PageOff (Page 1) HandlePageError,
          PageClose (Page 1) False]
   \<and> listeners (client (snd (closePage (snd (openPage (with_context True)))))) = []
   \<and> listeners (client (snd (openPage (with_context False)))) = []
   \<and> emitted (pageerror (Page 1) (Error ''boom'') (client (snd (openPage (with_context False)))))
       = []
   \<and> drop 2 (calls (client (snd (closePage (snd (openPage (with_context False)))))))
       = [PageClose (Page 1) False]"
proof -
  have h: "page (global (with_context x)) = None
      \<and> ctxt (global (with_context x)) = Some (DefaultContext (Browser 0))
      \<and> Page (next_handle (client (with_context x)))
          \<notin> fst ` set (listeners (client (with_context x)))" for x
    by (simp add: with_context_eq)
  have n: "next_handle (client (with_context x)) = 1"
    "exitOnPageError (puppeteerConfig (global (with_context x))) = x"
    "listeners (client (with_context x)) = []" "emitted (client (with_context x)) = []"
    "length (calls (client (with_context x))) = 1" for x
    by (simp_all add: with_context_eq config0_def)
  show ?thesis
    using page_error_listener [of "with_context True" "DefaultContext (Browser 0)" "Error ''boom''"]
      page_error_listener [of "with_context False" "DefaultContext (Browser 0)" "Error ''boom''"]
      page_error_listener [of "snd (openPage (with_context True))" _ _ "Page 1"]
      page_error_listener [of "snd (openPage (with_context False))" _ _ "Page 1"]
      h [of True] h [of False]
    by (simp add: n opened_page)
qed

subsection \<open>The lifecycle invariant\<close>

lemma acquire_lifecycle_ok:
  assumes "lifecycle_ok (global s)"
  shows "lifecycle_ok (global (snd (connectBrowser s)))"
    and "lifecycle_ok (global (snd (createContext s)))"
    and "lifecycle_ok (global (snd (openPage s)))"
    and "lifecycle_ok (global (snd (closePage s)))"
  using assms
  by (auto simp: lifecycle_ok_def op_defs client_defs split: option.splits)

lemma release_lifecycle_ok:
  assumes "lifecycle_ok (global s)"
  shows "page (global s) = None \<Longrightarrow> lifecycle_ok (global (snd (closeContext s)))"
    and "ctxt (global s) = None \<Longrightarrow> lifecycle_ok (global (snd (disconnectBrowser s)))"
  using assms
  by (auto simp: lifecycle_ok_def op_defs client_defs split: option.splits)

lemma closeAll_lifecycle_ok: "lifecycle_ok (global (snd (closeAll s)))"
  by (simp add: lifecycle_ok_def closeAll_clears)

lemma initAll_lifecycle_ok:
  "lifecycle_ok (global s) \<Longrightarrow> lifecycle_ok (global (snd (initAll s)))"
  unfolding initAll_def
  by (intro and_then_preserves [where P = "\<lambda>s. lifecycle_ok (global s)"] acquire_lifecycle_ok)

lemma resetPage_lifecycle_ok:
  "lifecycle_ok (global s) \<Longrightarrow> lifecycle_ok (global (snd (resetPage s)))"
  unfolding resetPage_def
  by (intro and_then_preserves [where P = "\<lambda>s. lifecycle_ok (global s)"] acquire_lifecycle_ok)

lemma resetBrowser_lifecycle_ok:
  "lifecycle_ok (global s) \<Longrightarrow> lifecycle_ok (global (snd (resetBrowser s)))"
  unfolding resetBrowser_def
  by (intro and_then_preserves [where P = "\<lambda>s. lifecycle_ok (global s)"]
      closeAll_lifecycle_ok initAll_lifecycle_ok)

lemma exec_lifecycle_ok:
  assumes "lifecycle_ok (global s)" and "in_order x (global s)"
  shows "lifecycle_ok (global (snd (exec x s)))"
  using assms
  by (cases x)
    (simp_all add: acquire_lifecycle_ok release_lifecycle_ok closeAll_lifecycle_ok
      initAll_lifecycle_ok resetPage_lifecycle_ok resetBrowser_lifecycle_ok)

lemma run_lifecycle_ok:
  "lifecycle_ok (global s) \<Longrightarrow> ordered xs s \<Longrightarrow> lifecycle_ok (global (run xs s))"
  by (induction xs arbitrary: s) (simp_all add: exec_lifecycle_ok)

lemma ordered_take: "ordered xs s \<Longrightarrow> ordered (take n xs) s"
proof (induction xs arbitrary: s n)
  case Nil
  then show ?case by simp
next
  case (Cons x xs)
  then show ?case by (cases n) simp_all
qed

lemma no_bare_release_ordered:
  "CloseContext \<notin> set as \<Longrightarrow> DisconnectBrowser \<notin> set as \<Longrightarrow> ordered as s"
proof (induction as arbitrary: s)
  case Nil
  then show ?case by simp
next
  case (Cons a as)
  then show ?case by (cases a) simp_all
qed

lemma initial_lifecycle_ok: "lifecycle_ok (global (initial config w))"
  by (simp add: lifecycle_ok_def initial_def)

text \<open>
  C1, as the code has it: starting from the initial state, after every prefix of a
  sequence of the coordinator's operations that respects the teardown order
  (\<^verbatim>\<open>closeContext\<close> on its own only while no page is held, \<^verbatim>\<open>disconnectBrowser\<close> on
  its own only while no context is held), a held page implies a held context and a held
  context implies a held browser. This covers every sequence of \<^verbatim>\<open>connectBrowser\<close>,
  \<^verbatim>\<open>createContext\<close>, \<^verbatim>\<open>openPage\<close>, \<^verbatim>\<open>closePage\<close>, \<^verbatim>\<open>initAll\<close>, \<^verbatim>\<open>closeAll\<close>,
  \<^verbatim>\<open>resetPage\<close> and \<^verbatim>\<open>resetBrowser\<close>.
\<close>

theorem lifecycle_invariant_in_teardown_order:
  "(ordered xs (initial config w) \<longrightarrow>
      lifecycle_ok (global (run (take n xs) (initial config w))))
   \<and> (CloseContext \<notin> set xs \<and> DisconnectBrowser \<notin> set xs \<longrightarrow>
      lifecycle_ok (global (run (take n xs) (initial config w))))"
  using run_lifecycle_ok [OF initial_lifecycle_ok ordered_take]
    no_bare_release_ordered [of xs "initial config w"]
  by blast

theorem lifecycle_invariant_in_teardown_order_witness:
  "ordered [InitAll, ResetPage, ClosePage, CloseContext, DisconnectBrowser, ResetBrowser]
     (initial config0 world0)
   \<and> lifecycle_ok (global (run [InitAll, ResetPage, ClosePage, CloseContext, DisconnectBrowser,
        ResetBrowser] (initial config0 world0)))
   \<and> lifecycle_ok (global (run [InitAll, ResetPage] (initial config0 world0)))"
proof -
  have o: "ordered [InitAll, ResetPage, ClosePage, CloseContext, DisconnectBrowser, ResetBrowser]
     (initial config0 world0)"
    by (simp add: seq_defs op_defs client_defs example_defs)
  show ?thesis
    using lifecycle_invariant_in_teardown_order
      [of "[InitAll, ResetPage, ClosePage, CloseContext, DisconnectBrowser, ResetBrowser]"
        config0 world0 6]
      lifecycle_invariant_in_teardown_order
      [of "[InitAll, ResetPage, ClosePage, CloseContext, DisconnectBrowser, ResetBrowser]"
        config0 world0 2] o
    by simp
qed

text \<open>
  C1, as stated, fails: \<^verbatim>\<open>closeContext\<close> after \<^verbatim>\<open>openPage\<close> leaves a page without a
  context, and \<^verbatim>\<open>disconnectBrowser\<close> after \<^verbatim>\<open>createContext\<close> leaves a context without
  a browser; neither release looks at the references that depend on its own.
\<close>

theorem lifecycle_invariant_counterexample:
  "\<not> lifecycle_ok (global (run [ConnectBrowser, CreateContext, OpenPage, CloseContext]
        (initial config0 world0)))
   \<and> \<not> lifecycle_ok (global (run [ConnectBrowser, CreateContext, DisconnectBrowser]
        (initial config0 world0)))"
  by (simp add: lifecycle_ok_def op_defs client_defs example_defs)

subsection \<open>Reset\<close>

lemma primitive_issued:
  assumes "issued s"
  shows "issued (snd (connectBrowser s))" and "issued (snd (createContext s))"
    and "issued (snd (openPage s))" and "issued (snd (closePage s))"
    and "issued (snd (closeContext s))" and "issued (snd (disconnectBrowser s))"
  using assms
  by (auto simp: issued_def op_defs client_defs split: option.splits)

lemma primitive_mode_accepted:
  assumes "mode_accepted s"
  shows "mode_accepted (snd (connectBrowser s))" and "mode_accepted (snd (createContext s))"
    and "mode_accepted (snd (openPage s))" and "mode_accepted (snd (closePage s))"
    and "mode_accepted (snd (closeContext s))" and "mode_accepted (snd (disconnectBrowser s))"
  using assms
  by (auto simp: mode_accepted_def valid_mode_def op_defs client_defs split: option.splits)

lemma exec_preserves:
  assumes "\<And>t. P t \<Longrightarrow> P (snd (connectBrowser t))" and "\<And>t. P t \<Longrightarrow> P (snd (createContext t))"
    and "\<And>t. P t \<Longrightarrow> P (snd (openPage t))" and "\<And>t. P t \<Longrightarrow> P (snd (closePage t))"
    and "\<And>t. P t \<Longrightarrow> P (snd (closeContext t))"
    and "\<And>t. P t \<Longrightarrow> P (snd (disconnectBrowser t))"
    and "P s"
  shows "P (snd (exec x s))"
proof -
  have init: "P (snd (initAll t))" if "P t" for t
    unfolding initAll_def using that
    by (intro and_then_preserves [where P = P] assms(1-3))
  have close: "P (snd (closeAll t))" if "P t" for t
    unfolding closeAll_def using that
    by (intro and_then_preserves [where P = P] assms(4-6))
  have page: "P (snd (resetPage t))" if "P t" for t
    unfolding resetPage_def using that
    by (intro and_then_preserves [where P = P] assms(3,4))
  have all: "P (snd (resetBrowser t))" if "P t" for t
    unfolding resetBrowser_def using that
    by (intro and_then_preserves [where P = P] init close)
  show ?thesis
    using assms(7) by (cases x) (simp_all add: assms(1-6) init close page all)
qed

lemma exec_issued: "issued s \<Longrightarrow> issued (snd (exec x s))"
  by (rule exec_preserves [where P = issued]) (simp_all add: primitive_issued)

lemma exec_mode_accepted: "mode_accepted s \<Longrightarrow> mode_accepted (snd (exec x s))"
  by (rule exec_preserves [where P = mode_accepted]) (simp_all add: primitive_mode_accepted)

lemma run_issued: "issued s \<Longrightarrow> issued (run xs s)"
  by (induction xs arbitrary: s) (simp_all add: exec_issued)

lemma run_mode_accepted: "mode_accepted s \<Longrightarrow> mode_accepted (run xs s)"
  by (induction xs arbitrary: s) (simp_all add: exec_mode_accepted)

lemma initial_issued: "issued (initial config w)"
  by (simp add: issued_def initial_def)

lemma initial_mode_accepted: "mode_accepted (initial config w)"
  by (simp add: mode_accepted_def initial_def)

lemma resetPage_new_page:
  assumes "issued s" and "ctxt (global s) = Some c" and "page (global s) = Some p"
  shows "fst (resetPage s) = Inr ()"
    and "page (global (snd (resetPage s))) = Some (Page (next_handle (client s)))"
    and "Page (next_handle (client s)) \<noteq> p"
    and "browser (global (snd (resetPage s))) = browser (global s)"
    and "ctxt (global (snd (resetPage s))) = ctxt (global s)"
  using assms
  by (auto simp: issued_def seq_defs op_defs client_defs)

lemma closeAll_next_handle: "next_handle (client (snd (closeAll s))) = next_handle (client s)"
  by (auto simp: seq_defs op_defs client_defs split: option.splits)

lemma resetBrowser_new_handles:
  assumes "issued s" and "valid_mode (puppeteerConfig (global s))"
    and "browser (global s) = Some b" and "ctxt (global s) = Some c" and "page (global s) = Some p"
  shows "fst (resetBrowser s) = Inr ()"
    and "\<exists>b'. browser (global (snd (resetBrowser s))) = Some b' \<and> b' \<noteq> b"
    and "\<exists>c'. ctxt (global (snd (resetBrowser s))) = Some c' \<and> c' \<noteq> c"
    and "\<exists>p'. page (global (snd (resetBrowser s))) = Some p' \<and> p' \<noteq> p"
proof -
  let ?t = "snd (closeAll s)"
  have t: "browser (global ?t) = None" "ctxt (global ?t) = None" "page (global ?t) = None"
    "valid_mode (puppeteerConfig (global ?t))"
    using assms(2) by (simp_all add: closeAll_clears)
  have r: "resetBrowser s = initAll ?t"
    using closeAll_clears(1) [of s]
    by (cases "closeAll s") (simp add: resetBrowser_def and_then_def)
  note i = initAll_from_empty [OF t]
  have n: "browser_no b < next_handle (client s)" "context_no c < next_handle (client s)"
    "page_no p < next_handle (client s)"
    using assms by (simp_all add: issued_def)
  show "fst (resetBrowser s) = Inr ()" by (simp add: r i)
  show "\<exists>b'. browser (global (snd (resetBrowser s))) = Some b' \<and> b' \<noteq> b"
    using n(1) by (auto simp: r i closeAll_next_handle)
  show "\<exists>c'. ctxt (global (snd (resetBrowser s))) = Some c' \<and> c' \<noteq> c"
    using n(2) by (auto simp: r i closeAll_next_handle)
  show "\<exists>p'. page (global (snd (resetBrowser s))) = Some p' \<and> p' \<noteq> p"
    using n(3) by (auto simp: r i closeAll_next_handle)
qed

text \<open>
  C9: in every state that the coordinator's operations reach from the initial state and
  in which browser, context and page are held, \<^verbatim>\<open>resetPage\<close> completes with a page
  reference held that differs from the one before, and \<^verbatim>\<open>resetBrowser\<close> completes with
  browser, context and page references held that all differ from the ones before. The
  client returns a handle it has not issued before on each acquisition.
\<close>

theorem reset_yields_new_references:
  assumes "s = run xs (initial config w)"
    and "browser (global s) = Some b" and "ctxt (global s) = Some c" and "page (global s) = Some p"
  shows "fst (resetPage s) = Inr ()
     \<and> (\<exists>p'. page (global (snd (resetPage s))) = Some p' \<and> p' \<noteq> p)
     \<and> fst (resetBrowser s) = Inr ()
     \<and> (\<exists>b'. browser (global (snd (resetBrowser s))) = Some b' \<and> b' \<noteq> b)
     \<and> (\<exists>c'. ctxt (global (snd (resetBrowser s))) = Some c' \<and> c' \<noteq> c)
     \<and> (\<exists>p'. page (global (snd (resetBrowser s))) = Some p' \<and> p' \<noteq> p)"
proof -
  have i: "issued s"
    unfolding assms(1) by (rule run_issued [OF initial_issued])
  have "mode_accepted s"
    unfolding assms(1) by (rule run_mode_accepted [OF initial_mode_accepted])
  then have v: "valid_mode (puppeteerConfig (global s))"
    using assms(3) by (simp add: mode_accepted_def)
  show ?thesis
    using resetPage_new_page [OF i assms(3,4)] resetBrowser_new_handles [OF i v assms(2-4)]
    by simp
qed

theorem reset_yields_new_references_witness:
  "browser (global (run [InitAll] (initial config0 world0))) = Some (Browser 0)
   \<and> ctxt (global (run [InitAll] (initial config0 world0))) = Some (DefaultContext (Browser 0))
   \<and> page (global (run [InitAll] (initial config0 world0))) = Some (Page 1)
   \<and> fst (resetPage (run [InitAll] (initial config0 world0))) = Inr ()
   \<and> page (global (snd (resetPage (run [InitAll] (initial config0 world0))))) \<noteq> Some (Page 1)
   \<and> fst (resetBrowser (run [InitAll] (initial config0 world0))) = Inr ()
   \<and> browser (global (snd (resetBrowser (run [InitAll] (initial config0 world0)))))
       \<noteq> Some (Browser 0)
   \<and> ctxt (global (snd (resetBrowser (run [InitAll] (initial config0 world0)))))
       \<noteq> Some (DefaultContext (Browser 0))
   \<and> page (global (snd (resetBrowser (run [InitAll] (initial config0 world0))))) \<noteq> Some (Page 1)"
proof -
  have h: "browser (global (run [InitAll] (initial config0 world0))) = Some (Browser 0)"
    "ctxt (global (run [InitAll] (initial config0 world0))) = Some (DefaultContext (Browser 0))"
    "page (global (run [InitAll] (initial config0 world0))) = Some (Page 1)"
    by (simp_all add: established_config0)
  show ?thesis
    using reset_yields_new_references [OF refl h] h by auto
qed

end
